theory Spec2Isabelle
  imports Complex_Main
begin

section \<open>Cells, labels and tables\<close>

text \<open>
  The pipeline of \<^verbatim>\<open>data_processing.py\<close> works on pandas tables. A cell is a piece of
  text, a number, or the missing value (NaN). Numbers are opaque to every operation of the
  pipeline; the rationals stand for them. A column label or a row label is a cell as well:
  after the transposition the labels of a table are taken from a row of cells.

  A table carries its row labels (\<open>index\<close>), its column labels (\<open>columns\<close>) and
  its rows. The tables of this model are the ones pandas holds with dtype \<open>object\<close> in
  every column, which is what \<^verbatim>\<open>df.T\<close> yields for a sheet holding at least one text
  cell, and what the CSV reader yields for a column holding text.
\<close>

datatype cell = Str string | Num rat | Missing

datatype error = AttributeError | IndexError | KeyError | ValueError | MergeError

record dataframe =
  index :: "cell list"
  columns :: "cell list"
  rows :: "cell list list"


text \<open>\<^verbatim>\<open>reset_index(drop=True)\<close> and every freshly built table: the labels 0, 1, ..., n - 1.\<close>

definition range_index :: "nat \<Rightarrow> cell list" where
  "range_index n = map (\<lambda>i. Num (of_nat i)) [0..<n]"

fun is_str :: "cell \<Rightarrow> bool" where
  "is_str (Str s) = True"
| "is_str c = False"

fun is_num :: "cell \<Rightarrow> bool" where
  "is_num (Num x) = True"
| "is_num c = False"

text \<open>The cells of the column at position \<open>j\<close>, and the positions that carry a label.\<close>

definition column :: "dataframe \<Rightarrow> nat \<Rightarrow> cell list" where
  "column df j = map (\<lambda>r. r ! j) (rows df)"

definition positions_of :: "cell \<Rightarrow> cell list \<Rightarrow> nat list" where
  "positions_of l ls = filter (\<lambda>j. ls ! j = l) [0..<length ls]"

text \<open>
  \<^verbatim>\<open>df[col] = df[col].apply(f)\<close> for a label that names the single column at position
  \<open>j\<close>: every cell of that column is replaced by its image, nothing else changes.
\<close>

definition map_column :: "(cell \<Rightarrow> cell) \<Rightarrow> nat \<Rightarrow> dataframe \<Rightarrow> dataframe" where
  "map_column f j df = df\<lparr>rows := map (\<lambda>r. r[j := f (r ! j)]) (rows df)\<rparr>"

section \<open>Whitespace\<close>

text \<open>
  Python's \<^verbatim>\<open>str.strip()\<close> removes the whitespace characters at both ends. A character of
  the model is a code point below 256 (the impacts file is read as latin-1); the whitespace
  among them is tab, line feed, vertical tab, form feed, carriage return, the four
  separators 0x1C to 0x1F, the space, NEL (0x85) and the no-break space (0xA0).
\<close>

definition is_space :: "char \<Rightarrow> bool" where
  "is_space c \<longleftrightarrow>
     c \<in> set [CHR 0x09, CHR 0x0A, CHR 0x0B, CHR 0x0C, CHR 0x0D, CHR 0x1C, CHR 0x1D, CHR 0x1E,
              CHR 0x1F, CHR 0x20, CHR 0x85, CHR 0xA0]"

definition strip :: "string \<Rightarrow> string" where
  "strip s = rev (dropWhile is_space (rev (dropWhile is_space s)))"

text \<open>The lambda of both loaders: \<^verbatim>\<open>x.strip() if isinstance(x, str) else x\<close>.\<close>

fun strip_if_str :: "cell \<Rightarrow> cell" where
  "strip_if_str (Str s) = Str (strip s)"
| "strip_if_str c = c"

text \<open>
  The \<^verbatim>\<open>.str\<close> accessor of a series or of an index of dtype object. pandas infers the
  kind of the values, skipping the missing ones, and refuses the accessor with an
  AttributeError unless that kind is text, mixed or empty: it raises exactly when there is a
  number and no text. Where it is granted, \<^verbatim>\<open>.str.strip()\<close> strips each text element and
  turns every element that is not text into the missing value.
\<close>

definition str_accessor_ok :: "cell list \<Rightarrow> bool" where
  "str_accessor_ok cs \<longleftrightarrow> list_ex is_str cs \<or> list_all (\<lambda>c. c = Missing) cs"

fun str_strip_cell :: "cell \<Rightarrow> cell" where
  "str_strip_cell (Str s) = Str (strip s)"
| "str_strip_cell c = Missing"

definition str_strip :: "cell list \<Rightarrow> error + cell list" where
  "str_strip cs =
     (if str_accessor_ok cs then Inr (map str_strip_cell cs) else Inl AttributeError)"

section \<open>The text passes of the loaders\<close>

text \<open>
  Lines 35 and 36 of \<^verbatim>\<open>load_and_clean_metadata\<close>:
  \<^verbatim>\<open>if 'UUID' in df.columns: df['UUID'] = df['UUID'].str.strip()\<close>.
  When the label stands on several columns, \<^verbatim>\<open>df['UUID']\<close> is a table, which has no
  \<^verbatim>\<open>.str\<close>: an AttributeError.
\<close>

definition strip_uuid :: "dataframe \<Rightarrow> error + dataframe" where
  "strip_uuid df =
     (case positions_of (Str ''UUID'') (columns df) of
        [] \<Rightarrow> Inr df
      | [j] \<Rightarrow>
          (if str_accessor_ok (column df j) then Inr (map_column str_strip_cell j df)
           else Inl AttributeError)
      | _ \<Rightarrow> Inl AttributeError)"

text \<open>
  Lines 39 to 41 (and 97 to 99 of \<^verbatim>\<open>load_and_clean_indicators\<close>): the loop over the labels
  of the object columns, \<^verbatim>\<open>df[col] = df[col].apply(lambda x: ...)\<close>. In a table of dtype
  object \<^verbatim>\<open>select_dtypes\<close> selects every column. One step of the loop: when the label
  names one column, the lambda runs on each of its cells. When the label stands on several
  columns, \<^verbatim>\<open>df[col]\<close> is a table and \<^verbatim>\<open>apply\<close> hands the lambda whole columns, which are
  not text: they come back as they are.
\<close>

definition apply_strip :: "dataframe \<Rightarrow> cell \<Rightarrow> dataframe" where
  "apply_strip df col =
     (case positions_of col (columns df) of
        [j] \<Rightarrow> map_column strip_if_str j df
      | _ \<Rightarrow> df)"

definition strip_object_columns :: "dataframe \<Rightarrow> dataframe" where
  "strip_object_columns df = foldl apply_strip df (columns df)"

section \<open>The transposed sheets: process metadata and indicator metadata\<close>

text \<open>\<^verbatim>\<open>df.T\<close>: row \<open>j\<close> of the result is column \<open>j\<close> of the sheet, and the two label lists swap.\<close>

definition transpose_df :: "dataframe \<Rightarrow> dataframe" where
  "transpose_df df =
     \<lparr>index = columns df, columns = index df,
      rows = map (column df) [0..<length (columns df)]\<rparr>"

text \<open>
  Lines 26 to 32 of \<^verbatim>\<open>load_and_clean_metadata\<close>, and the same statements at lines 88 to
  94 of \<^verbatim>\<open>load_and_clean_indicators\<close>:
  \<^verbatim>\<open>t.columns = t.iloc[0]\<close> (an IndexError when the table has no row),
  \<^verbatim>\<open>t = t[2:].reset_index(drop=True)\<close>, and
  \<^verbatim>\<open>t.columns = t.columns.str.strip()\<close> (an AttributeError when the accessor is refused).
\<close>

definition normalize_header :: "dataframe \<Rightarrow> error + dataframe" where
  "normalize_header t =
     (case rows t of
        [] \<Rightarrow> Inl IndexError
      | r0 # rs \<Rightarrow>
          (case str_strip r0 of
             Inl e \<Rightarrow> Inl e
           | Inr ls \<Rightarrow>
               Inr \<lparr>index = range_index (length (drop 2 (rows t))), columns = ls,
                    rows = drop 2 (rows t)\<rparr>))"

text \<open>
  The two loaders, from the sheet as \<^verbatim>\<open>pd.read_excel\<close> returned it. Reading the file is
  not part of the model.
\<close>

definition load_and_clean_metadata :: "dataframe \<Rightarrow> error + dataframe" where
  "load_and_clean_metadata df =
     (case normalize_header (transpose_df df) of
        Inl e \<Rightarrow> Inl e
      | Inr t \<Rightarrow>
          (case strip_uuid t of
             Inl e \<Rightarrow> Inl e
           | Inr t' \<Rightarrow> Inr (strip_object_columns t')))"

definition load_and_clean_indicators :: "dataframe \<Rightarrow> error + dataframe" where
  "load_and_clean_indicators df =
     (case normalize_header (transpose_df df) of
        Inl e \<Rightarrow> Inl e
      | Inr t \<Rightarrow> Inr (strip_object_columns t))"

section \<open>The impacts file\<close>

text \<open>
  \<^verbatim>\<open>df.rename(columns={...})\<close>: a label that is a key of the dictionary is replaced, any
  other label stays. The keys of line 63 to 68 hold the letters e-acute (0xE9), c-cedilla
  (0xE7) and an apostrophe (0x27).
\<close>

definition rename_columns :: "(cell \<times> cell) list \<Rightarrow> dataframe \<Rightarrow> dataframe" where
  "rename_columns m df =
     df\<lparr>columns := map (\<lambda>l. case map_of m l of Some l' \<Rightarrow> l' | None \<Rightarrow> l) (columns df)\<rparr>"

definition impacts_renaming :: "(cell \<times> cell) list" where
  "impacts_renaming =
     [(Str (''UUID de la cat'' @ [CHR 0xE9] @ ''gorie d'' @ [CHR 0x27] @ ''impacts''),
         Str ''impact_category_uuid''),
      (Str ''Nom anglais'', Str ''impact_name_en''),
      (Str (''Nom fran'' @ [CHR 0xE7] @ ''ais''), Str ''impact_name_fr''),
      (Str (''Unit'' @ [CHR 0xE9]), Str ''unit'')]"

text \<open>
  \<^verbatim>\<open>load_and_clean_impacts\<close>, from the table as \<^verbatim>\<open>pd.read_csv\<close> parsed it (the header
  line of the file gives the labels, the lines after it the rows):
  \<^verbatim>\<open>df.iloc[1:].reset_index(drop=True)\<close>, then the renaming.
\<close>

definition load_and_clean_impacts :: "dataframe \<Rightarrow> dataframe" where
  "load_and_clean_impacts df =
     rename_columns impacts_renaming
       (df\<lparr>index := range_index (length (drop 1 (rows df))), rows := drop 1 (rows df)\<rparr>)"

section \<open>From wide to long\<close>

definition id_cols :: "cell list" where
  "id_cols = [Str ''impact_category_uuid'', Str ''impact_name_en'', Str ''impact_name_fr'',
              Str ''unit'']"

text \<open>Line 115: \<^verbatim>\<open>[col for col in impacts_df.columns if col not in id_cols]\<close>.\<close>

definition value_cols :: "dataframe \<Rightarrow> cell list" where
  "value_cols df = filter (\<lambda>col. col \<notin> set id_cols) (columns df)"

text \<open>The order of first occurrence, as \<^verbatim>\<open>unique\<close> of pandas keeps it.\<close>

definition unique :: "'a list \<Rightarrow> 'a list" where
  "unique xs = rev (remdups (rev xs))"

text \<open>
  \<^verbatim>\<open>DataFrame.melt\<close> (pandas 2). It raises a ValueError when the name of the value column
  is already a label of the table, and a KeyError when a label of \<open>id_vars\<close> or
  \<open>value_vars\<close> is not. It then keeps the columns those labels stand on, takes each
  identifier column out by its label (a label standing on several columns yields a table
  there, and the attribute the code asks of it is missing: an AttributeError), and stacks
  the value columns one under the other: for each value column in turn, one row per row of
  the table, holding the identifier cells of that row, the label of the value column and
  the cell. The result has a fresh index.
\<close>

definition melt :: "cell list \<Rightarrow> cell list \<Rightarrow> cell \<Rightarrow> cell \<Rightarrow> dataframe \<Rightarrow> error + dataframe" where
  "melt id_vars value_vars var_name value_name df =
     (if value_name \<in> set (columns df) then Inl ValueError
      else if \<not> set (id_vars @ value_vars) \<subseteq> set (columns df) then Inl KeyError
      else if list_ex (\<lambda>c. length (positions_of c (columns df)) \<noteq> 1) id_vars
        then Inl AttributeError
      else
        (let ps = unique (concat (map (\<lambda>v. positions_of v (columns df)) value_vars));
             ids = map (\<lambda>c. hd (positions_of c (columns df))) id_vars
         in Inr \<lparr>index = range_index (length (rows df) * length ps),
                 columns = id_vars @ [var_name, value_name],
                 rows = concat (map (\<lambda>j. map (\<lambda>r. map (\<lambda>i. r ! i) ids @ [columns df ! j, r ! j])
                                           (rows df)) ps)\<rparr>))"

text \<open>
  \<^verbatim>\<open>pd.to_numeric(..., errors='coerce')\<close> on one element: a number stays, a text is parsed,
  and a text that does not parse becomes the missing value. The parser of pandas is not
  part of the repository; it is the parameter \<open>parse\<close>, and \<open>None\<close> is its failure.
\<close>

fun to_numeric :: "(string \<Rightarrow> rat option) \<Rightarrow> cell \<Rightarrow> cell" where
  "to_numeric parse (Str s) = (case parse s of Some x \<Rightarrow> Num x | None \<Rightarrow> Missing)"
| "to_numeric parse c = c"

text \<open>
  An instance of the parser, to run the model on concrete tables: it reads a run of decimal
  digits and refuses anything else.
\<close>

definition digit_val :: "char \<Rightarrow> nat option" where
  "digit_val c = map_of (zip ''0123456789'' [0..<10]) c"

fun parse_digits_acc :: "nat \<Rightarrow> string \<Rightarrow> nat option" where
  "parse_digits_acc acc [] = Some acc"
| "parse_digits_acc acc (c # cs) =
     (case digit_val c of None \<Rightarrow> None | Some d \<Rightarrow> parse_digits_acc (10 * acc + d) cs)"

definition parse_digits :: "string \<Rightarrow> rat option" where
  "parse_digits s = (if s = [] then None else map_option of_nat (parse_digits_acc 0 s))"

text \<open>
  \<^verbatim>\<open>reshape_impacts_to_long\<close>. The value column of the melted table is its last column,
  and the only one with that label.
\<close>

definition reshape_impacts_to_long :: "(string \<Rightarrow> rat option) \<Rightarrow> dataframe \<Rightarrow> error + dataframe" where
  "reshape_impacts_to_long parse impacts_df =
     (case melt id_cols (value_cols impacts_df) (Str ''process_uuid'') (Str ''impact_value'')
             impacts_df of
        Inl e \<Rightarrow> Inl e
      | Inr df_long \<Rightarrow> Inr (map_column (to_numeric parse) (length id_cols + 1) df_long))"

section \<open>The merger\<close>

text \<open>
  The suffix policy of \<^verbatim>\<open>merge\<close>. A label that stands in both tables is rewritten as the
  text of the label followed by the suffix of its side; the text of the missing label is
  \<^verbatim>\<open>nan\<close>. The labels of the right-hand table have been through \<^verbatim>\<open>.str.strip()\<close> when
  \<^verbatim>\<open>merge_all_data\<close> merges, so that no number is among them and none stands in both
  tables: a number is left as it is. pandas 2 refuses with a MergeError a renaming that
  makes two labels of one side equal.
\<close>

fun add_suffix :: "string \<Rightarrow> cell \<Rightarrow> cell" where
  "add_suffix sfx (Str s) = Str (s @ sfx)"
| "add_suffix sfx Missing = Str (''nan'' @ sfx)"
| "add_suffix sfx (Num x) = Num x"

definition suffix_labels :: "string \<Rightarrow> cell list \<Rightarrow> cell list \<Rightarrow> cell list" where
  "suffix_labels sfx other ls = map (\<lambda>l. if l \<in> set other then add_suffix sfx l else l) ls"

definition new_duplicates :: "cell list \<Rightarrow> cell list \<Rightarrow> bool" where
  "new_duplicates ls' ls \<longleftrightarrow>
     list_ex (\<lambda>j. ls' ! j \<in> set (take j ls') \<and> ls ! j \<notin> set (take j ls)) [0..<length ls]"

text \<open>
  The rows of a left join on the cell at position \<open>i\<close> of a left row and the cell at
  position \<open>k\<close> of a right row: the left rows in their order, each one followed by every
  right row with an equal key, in the order of the right table, or by missing values when
  no right row has it. Two missing keys are equal to pandas.
\<close>

definition join_row :: "nat \<Rightarrow> nat \<Rightarrow> dataframe \<Rightarrow> cell list \<Rightarrow> cell list list" where
  "join_row i k right l =
     (case filter (\<lambda>r. r ! k = l ! i) (rows right) of
        [] \<Rightarrow> [l @ replicate (length (columns right)) Missing]
      | ms \<Rightarrow> map (\<lambda>r. l @ r) ms)"

text \<open>
  \<^verbatim>\<open>left.merge(right, left_on=..., right_on=..., how='left', suffixes=('', sfx))\<close> with two
  key labels that differ, so that both key columns are kept. A key label that the table
  does not have is a KeyError, one that stands on several columns a ValueError; the right
  key is looked up first. The result has a fresh index.
\<close>

definition merge_left :: "cell \<Rightarrow> cell \<Rightarrow> string \<Rightarrow> dataframe \<Rightarrow> dataframe \<Rightarrow> error + dataframe" where
  "merge_left left_on right_on sfx left right =
     (case positions_of right_on (columns right) of
        [] \<Rightarrow> Inl KeyError
      | [k] \<Rightarrow>
          (case positions_of left_on (columns left) of
             [] \<Rightarrow> Inl KeyError
           | [i] \<Rightarrow>
               (let llabels = suffix_labels [] (columns right) (columns left);
                    rlabels = suffix_labels sfx (columns left) (columns right);
                    joined = concat (map (join_row i k right) (rows left))
                in if new_duplicates llabels (columns left) \<or>
                      new_duplicates rlabels (columns right)
                   then Inl MergeError
                   else Inr \<lparr>index = range_index (length joined),
                             columns = llabels @ rlabels, rows = joined\<rparr>)
           | _ \<Rightarrow> Inl ValueError)
      | _ \<Rightarrow> Inl ValueError)"

text \<open>
  \<^verbatim>\<open>merge_all_data\<close>. Lines 139 and 140 assign to the \<^verbatim>\<open>columns\<close> of the two tables the
  caller passed: the outcome holds the two tables as the call leaves them, and the value
  returned or the error raised. An error of line 140 leaves the assignment of line 139 done.
\<close>

record outcome =
  metadata_after :: dataframe
  indicators_after :: dataframe
  returned :: "error + dataframe"

definition merge_all_data :: "dataframe \<Rightarrow> dataframe \<Rightarrow> dataframe \<Rightarrow> outcome" where
  "merge_all_data metadata_df impacts_long_df indicators_df =
     (case str_strip (columns metadata_df) of
        Inl e \<Rightarrow>
          \<lparr>metadata_after = metadata_df, indicators_after = indicators_df, returned = Inl e\<rparr>
      | Inr mls \<Rightarrow>
          (case str_strip (columns indicators_df) of
             Inl e \<Rightarrow>
               \<lparr>metadata_after = metadata_df\<lparr>columns := mls\<rparr>,
                indicators_after = indicators_df, returned = Inl e\<rparr>
           | Inr ils \<Rightarrow>
               \<lparr>metadata_after = metadata_df\<lparr>columns := mls\<rparr>,
                indicators_after = indicators_df\<lparr>columns := ils\<rparr>,
                returned =
                  (case merge_left (Str ''impact_category_uuid'') (Str ''UUID'') ''_indicator''
                          impacts_long_df (indicators_df\<lparr>columns := ils\<rparr>) of
                     Inl e \<Rightarrow> Inl e
                   | Inr merged \<Rightarrow>
                       merge_left (Str ''process_uuid'') (Str ''UUID'') ''_process''
                         merged (metadata_df\<lparr>columns := mls\<rparr>))\<rparr>))"

section \<open>Notions used to state the properties\<close>

text \<open>A row in which the text cells at the positions selected by \<open>P\<close> are stripped.\<close>

definition strip_where :: "(nat \<Rightarrow> bool) \<Rightarrow> cell list \<Rightarrow> cell list" where
  "strip_where P r = map (\<lambda>(j, c). if P j then strip_if_str c else c) (enumerate 0 r)"

text \<open>A text cell is trimmed when it is empty or neither its first nor its last character is
  whitespace; a table is trimmed when all its text cells are.\<close>

fun cell_trimmed :: "cell \<Rightarrow> bool" where
  "cell_trimmed (Str s) = (s = [] \<or> (\<not> is_space (hd s) \<and> \<not> is_space (last s)))"
| "cell_trimmed c = True"

definition trimmed :: "dataframe \<Rightarrow> bool" where
  "trimmed df \<longleftrightarrow> list_all (list_all cell_trimmed) (rows df)"

text \<open>The cell of a row under a label that names one column.\<close>

definition cell_at :: "dataframe \<Rightarrow> cell list \<Rightarrow> cell \<Rightarrow> cell" where
  "cell_at df r c = r ! hd (positions_of c (columns df))"

text \<open>
  The tables \<^verbatim>\<open>melt\<close> accepts from line 118: no column is called \<^verbatim>\<open>impact_value\<close>, and each
  of the four identifier labels names exactly one column.
\<close>

definition melt_accepts :: "dataframe \<Rightarrow> bool" where
  "melt_accepts df \<longleftrightarrow>
     Str ''impact_value'' \<notin> set (columns df) \<and>
     list_all (\<lambda>c. length (positions_of c (columns df)) = 1) id_cols"

text \<open>The renaming of lines 63 to 68, label by label.\<close>

definition rename_label :: "cell \<Rightarrow> cell" where
  "rename_label l =
     (if l = Str (''UUID de la cat'' @ [CHR 0xE9] @ ''gorie d'' @ [CHR 0x27] @ ''impacts'')
        then Str ''impact_category_uuid''
      else if l = Str ''Nom anglais'' then Str ''impact_name_en''
      else if l = Str (''Nom fran'' @ [CHR 0xE7] @ ''ais'') then Str ''impact_name_fr''
      else if l = Str (''Unit'' @ [CHR 0xE9]) then Str ''unit''
      else l)"



text \<open>
  Labels that \<^verbatim>\<open>.str.strip()\<close> accepts and leaves as they are: none is a number, each
  text label is trimmed, and one at least is text.
\<close>

definition labels_trimmed :: "cell list \<Rightarrow> bool" where
  "labels_trimmed ls \<longleftrightarrow> list_ex is_str ls \<and> list_all (\<lambda>l. \<not> is_num l \<and> cell_trimmed l) ls"






section \<open>Concrete tables\<close>

text \<open>The tables on which the properties below are run.\<close>

definition trimmed_table :: dataframe where
  "trimmed_table =
     \<lparr>index = range_index 2, columns = [Str ''UUID'', Str ''Nom''],
      rows = [[Str ''p 1'', Num 3], [Missing, Str ''acier'']]\<rparr>"

text \<open>An impacts table with two indicators and two processes, and its long form.\<close>

definition wide_table :: dataframe where
  "wide_table =
     \<lparr>index = range_index 2,
      columns = [Str ''impact_category_uuid'', Str ''impact_name_en'', Str ''impact_name_fr'',
                 Str ''unit'', Str ''p1'', Str ''p2''],
      rows = [[Str ''i1'', Str ''GWP'', Str ''PRG'', Str ''kg'', Str ''12'', Str ''n/a''],
              [Str ''i2'', Str ''ODP'', Str ''ODP'', Str ''kg'', Num 3, Missing]]\<rparr>"

definition long_table :: dataframe where
  "long_table =
     \<lparr>index = range_index 4,
      columns = [Str ''impact_category_uuid'', Str ''impact_name_en'', Str ''impact_name_fr'',
                 Str ''unit'', Str ''process_uuid'', Str ''impact_value''],
      rows = [[Str ''i1'', Str ''GWP'', Str ''PRG'', Str ''kg'', Str ''p1'', Num 12],
              [Str ''i2'', Str ''ODP'', Str ''ODP'', Str ''kg'', Str ''p1'', Num 3],
              [Str ''i1'', Str ''GWP'', Str ''PRG'', Str ''kg'', Str ''p2'', Missing],
              [Str ''i2'', Str ''ODP'', Str ''ODP'', Str ''kg'', Str ''p2'', Missing]]\<rparr>"


text \<open>A parsed impacts file: the header line gives the labels, three lines follow. And one
  with the header line only.\<close>

definition parsed_csv :: dataframe where
  "parsed_csv =
     \<lparr>index = range_index 3,
      columns = [Str (''UUID de la cat'' @ [CHR 0xE9] @ ''gorie d'' @ [CHR 0x27] @ ''impacts''),
                 Str ''Nom anglais'', Str (''Nom fran'' @ [CHR 0xE7] @ ''ais''),
                 Str (''Unit'' @ [CHR 0xE9]), Str ''p1'', Str ''p2''],
      rows = [[Str ''UUID'', Str ''name'', Str ''nom'', Str ''unit'', Str ''Acier'', Str ''Bois''],
              [Str ''i1'', Str ''GWP'', Str ''PRG'', Str ''kg'', Str ''12'', Str ''n/a''],
              [Str ''i2'', Str ''ODP'', Str ''ODP'', Str ''kg'', Num 3, Missing]]\<rparr>"

definition header_only_csv :: dataframe where
  "header_only_csv = \<lparr>index = [], columns = [Str ''Nom anglais'', Str ''p1''], rows = []\<rparr>"



text \<open>A sheet in which the identifier of the first process is a number.\<close>

definition numeric_uuid_sheet :: dataframe where
  "numeric_uuid_sheet =
     \<lparr>index = range_index 2,
      columns = [Str ''Attribut'', Str ''Libelle'', Str ''Procede 1'', Str ''Procede 2''],
      rows = [[Str ''UUID'', Str ''UUID'', Num 7, Str '' p2 ''],
              [Str ''Nom'', Str ''Nom du flux'', Str '' Acier'', Str ''Bois'']]\<rparr>"

text \<open>
  Metadata tables for the merge: indicators with the key \<^verbatim>\<open>i1\<close> only, processes with the
  key \<^verbatim>\<open>p1\<close> only, indicators with the key \<^verbatim>\<open>i1\<close> twice, and indicators whose
  labels carry whitespace.
\<close>

definition indicators_clean :: dataframe where
  "indicators_clean =
     \<lparr>index = range_index 1, columns = [Str ''UUID'', Str ''unit''],
      rows = [[Str ''i1'', Str ''kg CO2'']]\<rparr>"

definition process_table :: dataframe where
  "process_table =
     \<lparr>index = range_index 1, columns = [Str ''UUID'', Str ''Nom''],
      rows = [[Str ''p1'', Str ''Acier'']]\<rparr>"


definition padded_indicators :: dataframe where
  "padded_indicators =
     \<lparr>index = range_index 1, columns = [Str '' UUID'', Str ''unit ''],
      rows = [[Str ''i1'', Str ''kg CO2'']]\<rparr>"




section \<open>Stripping\<close>


lemma dropWhile_hd_id: "xs \<noteq> [] \<Longrightarrow> \<not> P (hd xs) \<Longrightarrow> dropWhile P xs = xs"
  by (cases xs) auto

lemma rev_dropWhile_rev_prefix:
  "t \<noteq> [] \<Longrightarrow> \<not> P (hd t) \<Longrightarrow>
     rev (dropWhile P (rev t)) \<noteq> [] \<and> hd (rev (dropWhile P (rev t))) = hd t"
proof (induction t rule: rev_induct)
  case Nil then show ?case by simp
next
  case (snoc x xs)
  show ?case
  proof (cases "xs = []")
    case True with snoc.prems show ?thesis by simp
  next
    case False
    with snoc show ?thesis by (cases "P x") (auto simp: hd_append)
  qed
qed

lemma strip_strip: "strip (strip s) = strip s"
proof -
  define t where "t = dropWhile is_space s"
  define u where "u = rev (dropWhile is_space (rev t))"
  have hd_t: "t \<noteq> [] \<Longrightarrow> \<not> is_space (hd t)"
    unfolding t_def using hd_dropWhile by blast
  have "dropWhile is_space u = u"
  proof (cases "t = []")
    case True then show ?thesis by (simp add: u_def)
  next
    case False
    with hd_t rev_dropWhile_rev_prefix [of t is_space]
    have "u \<noteq> []" "\<not> is_space (hd u)" by (simp_all add: u_def)
    then show ?thesis by (rule dropWhile_hd_id)
  qed
  moreover have "rev (dropWhile is_space (rev u)) = u"
    by (simp add: u_def)
  ultimately show ?thesis by (simp add: strip_def t_def u_def)
qed

lemma strip_if_str_idem: "strip_if_str (strip_if_str c) = strip_if_str c"
  by (cases c) (simp_all add: strip_strip)

section \<open>The loop over the object columns, cell by cell\<close>

lemma length_strip_where [simp]: "length (strip_where P r) = length r"
  by (simp add: strip_where_def)

lemma nth_strip_where [simp]:
  "j < length r \<Longrightarrow> strip_where P r ! j = (if P j then strip_if_str (r ! j) else r ! j)"
  by (simp add: strip_where_def nth_enumerate_eq)

lemma strip_where_update: "r[j := strip_if_str (r ! j)] = strip_where (\<lambda>k. k = j) r"
  by (rule nth_equalityI) (auto simp: nth_list_update)

lemma strip_where_twice:
  "strip_where P (strip_where Q r) = strip_where (\<lambda>j. P j \<or> Q j) r"
  by (rule nth_equalityI) (auto simp: strip_if_str_idem)

lemma strip_where_cong:
  "(\<And>j. j < length r \<Longrightarrow> P j = Q j) \<Longrightarrow> strip_where P r = strip_where Q r"
  by (rule nth_equalityI) auto


lemma in_positions_of [simp]: "j \<in> set (positions_of l ls) \<longleftrightarrow> j < length ls \<and> ls ! j = l"
  by (auto simp: positions_of_def)

lemma positions_of_single: "positions_of l ls = [j] \<Longrightarrow> j < length ls \<and> ls ! j = l"
  using in_positions_of [of j l ls] by simp

lemma apply_strip_frame [simp]:
  "columns (apply_strip df col) = columns df" "index (apply_strip df col) = index df"
  by (auto simp: apply_strip_def map_column_def split: list.splits)

lemma foldl_apply_strip_frame [simp]:
  "columns (foldl apply_strip df ls) = columns df" "index (foldl apply_strip df ls) = index df"
  by (induction ls rule: rev_induct) auto

lemma rows_foldl_apply_strip:
  "rows (foldl apply_strip df ls) =
     map (strip_where (\<lambda>j. j < length (columns df) \<and> columns df ! j \<in> set ls \<and>
            positions_of (columns df ! j) (columns df) = [j])) (rows df)"
proof (induction ls rule: rev_induct)
  case Nil
  have "strip_where (\<lambda>j. False) r = r" for r
    by (rule nth_equalityI) auto
  then show ?case by (simp add: map_idI)
next
  case (snoc l ls)
  let ?L = "columns df"
  let ?P = "\<lambda>j. j < length ?L \<and> ?L ! j \<in> set ls \<and> positions_of (?L ! j) ?L = [j]"
  let ?P' = "\<lambda>j. j < length ?L \<and> ?L ! j \<in> set (ls @ [l]) \<and> positions_of (?L ! j) ?L = [j]"
  show ?case
  proof (cases "\<exists>j. positions_of l ?L = [j]")
    case True
    then obtain j where j: "positions_of l ?L = [j]" by blast
    then have jl: "j < length ?L" "?L ! j = l" using positions_of_single by blast+
    have eq: "(\<lambda>k. k = j \<or> ?P k) = ?P'"
      using j jl by (auto simp: fun_eq_iff)
    have "rows (foldl apply_strip df (ls @ [l])) =
            map (\<lambda>r. r[j := strip_if_str (r ! j)]) (rows (foldl apply_strip df ls))"
      using j by (simp add: apply_strip_def map_column_def)
    also have "\<dots> = map (strip_where (\<lambda>k. k = j \<or> ?P k)) (rows df)"
      by (simp add: snoc.IH strip_where_update strip_where_twice)
    finally show ?thesis by (simp only: eq)
  next
    case False
    then have "apply_strip (foldl apply_strip df ls) l = foldl apply_strip df ls"
      by (auto simp: apply_strip_def split: list.splits)
    moreover have "?P' = ?P" using False by (auto simp: fun_eq_iff)
    ultimately show ?thesis using snoc.IH by simp
  qed
qed


lemma rows_strip_object_columns:
  "rows (strip_object_columns df) =
     map (strip_where (\<lambda>j. j < length (columns df) \<and>
            positions_of (columns df ! j) (columns df) = [j])) (rows df)"
  unfolding strip_object_columns_def rows_foldl_apply_strip
  by (intro map_cong refl) (auto intro: strip_where_cong)


lemma length_strip_le: "length (strip s) \<le> length s"
proof -
  have "length (strip s) \<le> length (dropWhile is_space s)"
    using length_dropWhile_le [of is_space "rev (dropWhile is_space s)"]
    by (simp add: strip_def)
  also have "\<dots> \<le> length s" by (rule length_dropWhile_le)
  finally show ?thesis .
qed

lemma length_strip_le_dropWhile: "length (strip s) \<le> length (dropWhile is_space s)"
  using length_dropWhile_le [of is_space "rev (dropWhile is_space s)"]
  by (simp add: strip_def)

lemma strip_fixed_iff:
  "strip s = s \<longleftrightarrow> s = [] \<or> (\<not> is_space (hd s) \<and> \<not> is_space (last s))"
proof
  assume fixed: "strip s = s"
  show "s = [] \<or> (\<not> is_space (hd s) \<and> \<not> is_space (last s))"
  proof (cases "s = []")
    case True then show ?thesis by simp
  next
    case False
    have "\<not> is_space (hd s)"
    proof
      assume "is_space (hd s)"
      with False have "length (dropWhile is_space s) < length s"
        by (cases s) (auto simp: less_Suc_eq_le length_dropWhile_le)
      moreover have "length (strip s) \<le> length (dropWhile is_space s)"
        by (rule length_strip_le_dropWhile)
      ultimately show False using fixed by simp
    qed
    moreover have "\<not> is_space (last s)"
    proof
      assume sp: "is_space (last s)"
      from False \<open>\<not> is_space (hd s)\<close> have d: "dropWhile is_space s = s"
        by (rule dropWhile_hd_id)
      from False sp have "length (dropWhile is_space (rev s)) < length (rev s)"
        by (cases "rev s") (auto simp: less_Suc_eq_le length_dropWhile_le last_rev [symmetric] simp del: last_rev)
      then have "length (strip s) < length s" by (simp add: strip_def d)
      with fixed show False by simp
    qed
    ultimately show ?thesis by simp
  qed
next
  assume "s = [] \<or> (\<not> is_space (hd s) \<and> \<not> is_space (last s))"
  then show "strip s = s"
  proof
    assume "s = []" then show ?thesis by (simp add: strip_def)
  next
    assume h: "\<not> is_space (hd s) \<and> \<not> is_space (last s)"
    show ?thesis
    proof (cases "s = []")
      case True then show ?thesis by (simp add: strip_def)
    next
      case False
      with h have "dropWhile is_space s = s" by (simp add: dropWhile_hd_id)
      moreover from False h have "dropWhile is_space (rev s) = rev s"
        by (simp add: dropWhile_hd_id hd_rev)
      ultimately show ?thesis by (simp add: strip_def)
    qed
  qed
qed

lemma cell_trimmed_iff: "cell_trimmed c \<longleftrightarrow> strip_if_str c = c"
  by (cases c) (simp_all add: strip_fixed_iff)

lemma strip_where_trimmed: "list_all cell_trimmed r \<Longrightarrow> strip_where P r = r"
  by (rule nth_equalityI) (auto simp: list_all_length cell_trimmed_iff)

lemma strip_object_columns_frame [simp]:
  "columns (strip_object_columns df) = columns df" "index (strip_object_columns df) = index df"
  by (simp_all add: strip_object_columns_def)

section \<open>Melting\<close>

lemma set_unique [simp]: "set (unique xs) = set xs"
  by (simp add: unique_def)

lemma distinct_unique [simp]: "distinct (unique xs)"
  by (simp add: unique_def)

lemma set_value_positions:
  "set (concat (map (\<lambda>v. positions_of v ls) (filter P ls))) = {j. j < length ls \<and> P (ls ! j)}"
  by (auto simp: positions_of_def)

lemma length_value_positions:
  "length (unique (concat (map (\<lambda>v. positions_of v ls) (filter P ls)))) = length (filter P ls)"
proof -
  have "length (unique (concat (map (\<lambda>v. positions_of v ls) (filter P ls)))) =
          card (set (unique (concat (map (\<lambda>v. positions_of v ls) (filter P ls)))))"
    by (rule distinct_card [symmetric]) simp
  also have "\<dots> = card {j. j < length ls \<and> P (ls ! j)}"
    by (simp only: set_unique set_value_positions)
  also have "\<dots> = length (filter P ls)"
    by (simp add: length_filter_conv_card)
  finally show ?thesis .
qed

lemma length_concat_const:
  "length (concat (map (\<lambda>j. map (f j) xs) ps)) = length xs * length ps"
  by (induction ps) auto

lemma positions_nonempty_in_set: "positions_of c ls \<noteq> [] \<Longrightarrow> c \<in> set ls"
proof -
  assume "positions_of c ls \<noteq> []"
  then obtain j where "j \<in> set (positions_of c ls)"
    by (cases "positions_of c ls") (auto simp del: in_positions_of)
  then show ?thesis by auto
qed

lemma melt_accepts_subset:
  assumes "melt_accepts df"
  shows "set (id_cols @ value_cols df) \<subseteq> set (columns df)"
proof -
  have "c \<in> set (columns df)" if "c \<in> set id_cols" for c
  proof -
    from assms that have "length (positions_of c (columns df)) = 1"
      by (simp add: melt_accepts_def list_all_iff)
    then have "positions_of c (columns df) \<noteq> []" by auto
    then show ?thesis by (rule positions_nonempty_in_set)
  qed
  then show ?thesis by (auto simp: value_cols_def)
qed

lemma melt_returns_iff:
  "(\<exists>out. melt id_cols (value_cols df) (Str ''process_uuid'') (Str ''impact_value'') df = Inr out)
     \<longleftrightarrow> melt_accepts df"
proof
  assume "melt_accepts df"
  then show "\<exists>out. melt id_cols (value_cols df) (Str ''process_uuid'') (Str ''impact_value'') df = Inr out"
    using melt_accepts_subset [of df]
    by (auto simp: melt_def melt_accepts_def list_ex_iff list_all_iff Let_def)
next
  assume "\<exists>out. melt id_cols (value_cols df) (Str ''process_uuid'') (Str ''impact_value'') df = Inr out"
  then show "melt_accepts df"
    by (auto simp: melt_def melt_accepts_def list_ex_iff list_all_iff Let_def split: if_splits)
qed

lemma melt_rows:
  assumes "melt id_cols (value_cols df) (Str ''process_uuid'') (Str ''impact_value'') df = Inr out"
  shows "rows out =
           concat (map (\<lambda>j. map (\<lambda>r. map (cell_at df r) id_cols @ [columns df ! j, r ! j]) (rows df))
             (unique (concat (map (\<lambda>v. positions_of v (columns df)) (value_cols df)))))"
    and "index out = range_index (length (rows df) * length (value_cols df))"
    and "columns out = id_cols @ [Str ''process_uuid'', Str ''impact_value'']"
  using assms
  by (auto simp: melt_def Let_def cell_at_def [abs_def] comp_def value_cols_def length_value_positions
           split: if_splits)



lemma reshape_returns_iff:
  "(\<exists>out. reshape_impacts_to_long parse df = Inr out) \<longleftrightarrow> melt_accepts df"
  unfolding melt_returns_iff [symmetric]
  by (auto simp: reshape_impacts_to_long_def split: sum.splits)

lemma reshape_frame:
  assumes "reshape_impacts_to_long parse df = Inr out"
  shows "length (rows out) = length (rows df) * length (value_cols df)"
    and "index out = range_index (length (rows df) * length (value_cols df))"
proof -
  from assms obtain m
    where m: "melt id_cols (value_cols df) (Str ''process_uuid'') (Str ''impact_value'') df = Inr m"
      and out: "out = map_column (to_numeric parse) (length id_cols + 1) m"
    by (auto simp: reshape_impacts_to_long_def split: sum.splits)
  have "length (rows out) = length (rows m)" by (simp add: out map_column_def)
  also have "\<dots> = length (rows df) * length (value_cols df)"
    by (simp add: melt_rows(1) [OF m] length_concat_const length_value_positions value_cols_def)
  finally show "length (rows out) = length (rows df) * length (value_cols df)" .
  show "index out = range_index (length (rows df) * length (value_cols df))"
    by (simp add: out map_column_def melt_rows(2) [OF m])
qed

section \<open>The impacts loader\<close>

lemma rename_label_map_of:
  "(case map_of impacts_renaming l of Some l' \<Rightarrow> l' | None \<Rightarrow> l) = rename_label l"
  by (simp add: impacts_renaming_def rename_label_def)

section \<open>The loaders of the transposed sheets\<close>















section \<open>The merger\<close>

lemma str_strip_cell_fixed: "\<not> is_num l \<Longrightarrow> cell_trimmed l \<Longrightarrow> str_strip_cell l = l"
  by (cases l) (simp_all add: strip_fixed_iff)

lemma str_strip_trimmed: "labels_trimmed ls \<Longrightarrow> str_strip ls = Inr ls"
  by (auto simp: labels_trimmed_def str_strip_def str_accessor_ok_def list_all_iff
           str_strip_cell_fixed intro: map_idI)

lemma merge_all_data_frame:
  "rows (metadata_after (merge_all_data md f ind)) = rows md"
  "index (metadata_after (merge_all_data md f ind)) = index md"
  "rows (indicators_after (merge_all_data md f ind)) = rows ind"
  "index (indicators_after (merge_all_data md f ind)) = index ind"
  by (auto simp: merge_all_data_def split: sum.splits)

lemma merge_all_data_columns:
  "columns (metadata_after (merge_all_data md f ind)) =
     (if str_accessor_ok (columns md) then map str_strip_cell (columns md) else columns md)"
  "columns (indicators_after (merge_all_data md f ind)) =
     (if str_accessor_ok (columns md) \<and> str_accessor_ok (columns ind)
      then map str_strip_cell (columns ind) else columns ind)"
  by (auto simp: merge_all_data_def str_strip_def split: sum.splits)






lemma suffix_labels_empty_Str:
  "i < length ls \<Longrightarrow> ls ! i = Str s \<Longrightarrow> suffix_labels [] other ls ! i = Str s"
  by (simp add: suffix_labels_def)

lemma length_suffix_labels [simp]: "length (suffix_labels sfx other ls) = length ls"
  by (simp add: suffix_labels_def)

lemma positions_single_eq:
  assumes "positions_of l ls = [p]" "q < length ls" "ls ! q = l"
  shows "q = p"
proof -
  from assms(2,3) have "q \<in> set (positions_of l ls)" by simp
  with assms(1) show ?thesis by simp
qed

lemma merged_key_position:
  assumes "positions_of (Str s) (columns left) = [p]"
    and "positions_of (Str s)
           (suffix_labels [] (columns right) (columns left) @
            suffix_labels sfx (columns left) (columns right)) = [q]"
  shows "q = p"
proof -
  from positions_of_single [OF assms(1)] have p: "p < length (columns left)" "columns left ! p = Str s"
    by simp_all
  then have "(suffix_labels [] (columns right) (columns left) @
              suffix_labels sfx (columns left) (columns right)) ! p = Str s"
    by (simp add: nth_append suffix_labels_empty_Str)
  moreover from p have "p < length (suffix_labels [] (columns right) (columns left) @
              suffix_labels sfx (columns left) (columns right))" by simp
  ultimately show ?thesis using positions_single_eq [OF assms(2)] by metis
qed

lemma join_row_relabel [simp]:
  "join_row i k (right\<lparr>columns := map g (columns right)\<rparr>) = join_row i k right"
  by (auto simp: join_row_def fun_eq_iff split: list.splits)


lemma distinct_positions_of [simp]: "distinct (positions_of l ls)"
  by (simp add: positions_of_def)













section \<open>The claims\<close>

subsection \<open>C1: one row per fact row\<close>



subsection \<open>C2: the row count of the reshape\<close>

text \<open>
  Claim C2. Whenever \<^verbatim>\<open>reshape_impacts_to_long\<close> returns a table, the number of its rows
  is the number of input rows times the number of value columns, the value columns being
  the input columns whose label is not one of the four identifier labels; its index is the
  fresh one of that length. The function returns exactly on the tables \<^verbatim>\<open>melt\<close> accepts,
  and raises on the others.
\<close>

theorem reshape_row_count:
  "(reshape_impacts_to_long parse df = Inr out \<longrightarrow>
      length (rows out) = length (rows df) * length (value_cols df) \<and>
      index out = range_index (length (rows df) * length (value_cols df))) \<and>
   ((\<exists>out'. reshape_impacts_to_long parse df = Inr out') \<longleftrightarrow> melt_accepts df)"
  using reshape_frame [of parse df out] reshape_returns_iff [of parse df] by blast

theorem reshape_row_count_witness:
  "reshape_impacts_to_long parse_digits wide_table = Inr long_table \<and>
   length (rows long_table) = length (rows wide_table) * length (value_cols wide_table)"
proof -
  have e: "reshape_impacts_to_long parse_digits wide_table = Inr long_table"
    by code_simp
  from reshape_row_count [of parse_digits wide_table long_table] e
  have "length (rows long_table) = length (rows wide_table) * length (value_cols wide_table)"
    by blast
  with e show ?thesis by simp
qed

subsection \<open>C3: a cell that is not a number\<close>




subsection \<open>C4: the header of a transposed sheet\<close>




subsection \<open>C5: numbers under the identifier label\<close>

text \<open>
  Claim C5 on a sheet whose first process has a number as identifier:
  \<^verbatim>\<open>load_and_clean_metadata\<close> returns the missing value in its place, while
  \<^verbatim>\<open>load_and_clean_indicators\<close>, which has the loop of the text pass only, returns the number.
\<close>

theorem metadata_uuid_number_lost:
  "load_and_clean_metadata numeric_uuid_sheet =
     Inr \<lparr>index = range_index 2, columns = [Str ''UUID'', Str ''Nom''],
          rows = [[Missing, Str ''Acier''], [Str ''p2'', Str ''Bois'']]\<rparr> \<and>
   load_and_clean_indicators numeric_uuid_sheet =
     Inr \<lparr>index = range_index 2, columns = [Str ''UUID'', Str ''Nom''],
          rows = [[Num 7, Str ''Acier''], [Str ''p2'', Str ''Bois'']]\<rparr>"
  by code_simp

subsection \<open>C6: text normalisation is idempotent\<close>

text \<open>
  Claim C6. The whitespace-trimming pass (the loop of lines 39 to 41) returns a table whose
  text cells are already trimmed exactly as it received it, and running the pass on its
  own output changes nothing.
\<close>

theorem strip_object_columns_idempotent:
  "(trimmed df \<longrightarrow> strip_object_columns df = df) \<and>
   strip_object_columns (strip_object_columns df) = strip_object_columns df"
proof
  show "trimmed df \<longrightarrow> strip_object_columns df = df"
  proof
    assume "trimmed df"
    then have "rows (strip_object_columns df) = rows df"
      unfolding rows_strip_object_columns trimmed_def
      by (intro map_idI strip_where_trimmed) (simp add: list_all_iff)
    then show "strip_object_columns df = df"
      by (simp add: dataframe.equality)
  qed
  have "rows (strip_object_columns (strip_object_columns df)) = rows (strip_object_columns df)"
    by (simp add: rows_strip_object_columns strip_where_twice)
  then show "strip_object_columns (strip_object_columns df) = strip_object_columns df"
    by (simp add: dataframe.equality)
qed

theorem strip_object_columns_idempotent_witness:
  "trimmed trimmed_table \<and> strip_object_columns trimmed_table = trimmed_table"
proof -
  have t: "trimmed trimmed_table"
    by (simp add: trimmed_def trimmed_table_def is_space_def)
  from strip_object_columns_idempotent [of trimmed_table] t
  have "strip_object_columns trimmed_table = trimmed_table" by blast
  with t show ?thesis by simp
qed

subsection \<open>C7: duplicate keys\<close>




subsection \<open>C8: the tables passed to the merger\<close>

text \<open>
  Claim C8, as stated, fails on the column labels: lines 139 and 140 assign the stripped
  labels to the tables the caller passed.
\<close>

theorem merge_all_data_relabels_input:
  "columns padded_indicators = [Str '' UUID'', Str ''unit ''] \<and>
   columns (indicators_after (merge_all_data process_table long_table padded_indicators)) =
     [Str ''UUID'', Str ''unit''] \<and>
   indicators_after (merge_all_data process_table long_table padded_indicators) \<noteq> padded_indicators"
  by code_simp

text \<open>
  Claim C8, amended. \<^verbatim>\<open>merge_all_data\<close> leaves the rows and the index of the process
  metadata table and of the indicator metadata table as they were, whether it returns or
  raises. It replaces their column labels by the stripped labels (those of the indicator
  table once the labels of the process table have passed); two tables whose labels are
  trimmed text or missing, one text label at least, are unchanged after the call.
\<close>

theorem merge_all_data_inputs:
  "rows (metadata_after (merge_all_data md f ind)) = rows md \<and>
   index (metadata_after (merge_all_data md f ind)) = index md \<and>
   rows (indicators_after (merge_all_data md f ind)) = rows ind \<and>
   index (indicators_after (merge_all_data md f ind)) = index ind \<and>
   columns (metadata_after (merge_all_data md f ind)) =
     (if str_accessor_ok (columns md) then map str_strip_cell (columns md) else columns md) \<and>
   columns (indicators_after (merge_all_data md f ind)) =
     (if str_accessor_ok (columns md) \<and> str_accessor_ok (columns ind)
      then map str_strip_cell (columns ind) else columns ind) \<and>
   (labels_trimmed (columns md) \<and> labels_trimmed (columns ind) \<longrightarrow>
      metadata_after (merge_all_data md f ind) = md \<and>
      indicators_after (merge_all_data md f ind) = ind)"
proof -
  have "metadata_after (merge_all_data md f ind) = md \<and>
        indicators_after (merge_all_data md f ind) = ind"
    if "labels_trimmed (columns md)" "labels_trimmed (columns ind)"
    using str_strip_trimmed [OF that(1)] str_strip_trimmed [OF that(2)]
    by (simp add: merge_all_data_def)
  then show ?thesis
    using merge_all_data_frame [of md f ind] merge_all_data_columns [of md f ind] by blast
qed

theorem merge_all_data_inputs_witness:
  "labels_trimmed (columns process_table) \<and> labels_trimmed (columns indicators_clean) \<and>
   metadata_after (merge_all_data process_table long_table indicators_clean) = process_table \<and>
   indicators_after (merge_all_data process_table long_table indicators_clean) = indicators_clean"
proof -
  have t: "labels_trimmed (columns process_table)" "labels_trimmed (columns indicators_clean)"
    by code_simp+
  from merge_all_data_inputs [of process_table long_table indicators_clean] t
  have "metadata_after (merge_all_data process_table long_table indicators_clean) = process_table \<and>
        indicators_after (merge_all_data process_table long_table indicators_clean) = indicators_clean"
    by blast
  with t show ?thesis by simp
qed

subsection \<open>C10: the impacts loader drops the first parsed row\<close>

text \<open>
  Claim C10, as stated, fails on a file that holds the header line only: the parsed table
  has no row, and neither has the output, which is not one row fewer.
\<close>

theorem load_and_clean_impacts_header_only:
  "length (rows header_only_csv) = 0 \<and> length (rows (load_and_clean_impacts header_only_csv)) = 0"
  by code_simp

text \<open>
  Claim C10, amended. The output of \<^verbatim>\<open>load_and_clean_impacts\<close> is the parsed table without
  its row 0, under a fresh index, with the four identifier labels renamed and every other
  label kept. When the parsed table has at least one row, the output has exactly one row
  fewer, and its row \<open>i\<close> is the parsed row \<open>i + 1\<close>.
\<close>

theorem load_and_clean_impacts_drops_first_row:
  "rows (load_and_clean_impacts df) = drop 1 (rows df) \<and>
   index (load_and_clean_impacts df) = range_index (length (rows (load_and_clean_impacts df))) \<and>
   columns (load_and_clean_impacts df) = map rename_label (columns df) \<and>
   (rows df \<noteq> [] \<longrightarrow>
      length (rows (load_and_clean_impacts df)) + 1 = length (rows df) \<and>
      (\<forall>i < length (rows (load_and_clean_impacts df)).
          rows (load_and_clean_impacts df) ! i = rows df ! (i + 1)))"
  by (cases "rows df")
     (simp_all add: load_and_clean_impacts_def rename_columns_def rename_label_map_of)

theorem load_and_clean_impacts_drops_first_row_witness:
  "rows parsed_csv \<noteq> [] \<and> load_and_clean_impacts parsed_csv = wide_table \<and>
   length (rows wide_table) + 1 = length (rows parsed_csv)"
proof -
  have n: "rows parsed_csv \<noteq> []" by (simp add: parsed_csv_def)
  have e: "load_and_clean_impacts parsed_csv = wide_table" by code_simp
  from load_and_clean_impacts_drops_first_row [of parsed_csv] n
  have "length (rows (load_and_clean_impacts parsed_csv)) + 1 = length (rows parsed_csv)"
    by blast
  with n e show ?thesis by simp
qed

end
